theory Spec2Isabelle
  imports Main "HOL-Library.Word"
begin

section \<open>Data model (usb\_monitor.h)\<close>

text \<open>
  The supervisor keeps one record per supervised port and threads every port onto two
  intrusive lists of the context: the port list and the timeout list. A port is
  identified here by its position in the port list (ports are created and destroyed
  only together with their hub, which none of the functions below does), and the
  timeout list holds such positions, head first.

  A \<^verbatim>\<open>libusb_device *\<close> is an address (\<open>dev_ptr\<close>); what libusb reports for
  the device (descriptor, bus number, port numbers) travels with it. The field
  \<open>dev\<close> of a port is \<open>None\<close> for the NULL pointer. The reference
  counts that \<^verbatim>\<open>libusb_ref_device\<close> maintains are the component
  \<open>dev_refs\<close> of the context. Log output is not modelled.
\<close>

type_synonym u8 = "8 word"
type_synonym u16 = "16 word"
type_synonym u64 = "64 word"

datatype port_msg = IDLE | PING | RESET

datatype port_status = PORT_NO_DEV_CONNECTED | PORT_DEV_CONNECTED

datatype power_state = POWER_OFF | POWER_ON

datatype libusb_hotplug_event = DEVICE_ARRIVED | DEVICE_LEFT

record libusb_device =
  dev_ptr :: nat
  idVendor :: u16
  idProduct :: u16
  bDeviceClass :: u8
  bus_number :: u8
  port_numbers :: "u8 list"

record usb_port =
  dev :: "nat option"
  timeout_expire :: u64
  vid :: u16
  pid :: u16
  status :: port_status
  pwr_state :: power_state
  msg_mode :: port_msg
  path_len :: u8
  num_retrans :: u8
  ping_cnt :: u8
  port_num :: u8
  path :: "u8 list"

record usb_monitor_ctx =
  port_list :: "usb_port list"
  timeout_list :: "nat list"
  dev_refs :: "nat \<Rightarrow> nat"

definition DEFAULT_TIMEOUT_SEC :: u8 where
  "DEFAULT_TIMEOUT_SEC = 5"

definition ADDED_TIMEOUT_SEC :: u8 where
  "ADDED_TIMEOUT_SEC = 10"

definition USB_PATH_MAX :: nat where
  "USB_PATH_MAX = 8"

definition LIBUSB_CLASS_HUB :: u8 where
  "LIBUSB_CLASS_HUB = 9"

text \<open>
  Modelled from the spec: the vendor and product identifiers of the YKUSH hub
  (ykush\_handler.h is not among the sources). Spec, section 6: vendor 0x04d8,
  product 0x0042.
\<close>

definition YKUSH_VID :: u16 where
  "YKUSH_VID = 0x04d8"

definition YKUSH_PID :: u16 where
  "YKUSH_PID = 0x0042"

section \<open>Helpers the monitor calls\<close>

text \<open>
  \<^verbatim>\<open>libusb_ref_device\<close> and \<^verbatim>\<open>libusb_unref_device\<close> of the USB library: the
  reference count of the device goes up or down by one.
\<close>

definition libusb_ref_device :: "nat \<Rightarrow> usb_monitor_ctx \<Rightarrow> usb_monitor_ctx" where
  "libusb_ref_device d ctx = ctx\<lparr>dev_refs := (dev_refs ctx)(d := Suc (dev_refs ctx d))\<rparr>"

definition libusb_unref_device :: "nat \<Rightarrow> usb_monitor_ctx \<Rightarrow> usb_monitor_ctx" where
  "libusb_unref_device d ctx = ctx\<lparr>dev_refs := (dev_refs ctx)(d := dev_refs ctx d - 1)\<rparr>"

text \<open>
  Modelled from the spec: \<^verbatim>\<open>usb_helpers_fill_port_array\<close> (usb\_helpers.c is not
  among the sources). Spec, section 3: the topological path is the bus number
  followed by up to seven port numbers, of length at most 8.
\<close>

definition usb_helpers_fill_port_array :: "libusb_device \<Rightarrow> u8 list \<times> u8" where
  "usb_helpers_fill_port_array d =
     (let pth = bus_number d # take (USB_PATH_MAX - 1) (port_numbers d)
      in (pth, of_nat (length pth)))"

text \<open>
  Modelled from the spec: \<^verbatim>\<open>usb_monitor_lists_find_port_path\<close>
  (usb\_monitor\_lists.c is not among the sources). Spec, section 4.1: a linear scan of
  the port collection with byte-equal comparison of the paths; the first match is the
  port, no match is NULL.
\<close>

fun find_port_from :: "nat \<Rightarrow> usb_port list \<Rightarrow> u8 list \<Rightarrow> u8 \<Rightarrow> nat option" where
  "find_port_from k [] pth len = None"
| "find_port_from k (p # ps) pth len =
     (if path_len p = len \<and> take (unat len) (path p) = take (unat len) pth
      then Some k
      else find_port_from (Suc k) ps pth len)"

definition usb_monitor_lists_find_port_path ::
    "usb_monitor_ctx \<Rightarrow> u8 list \<Rightarrow> u8 \<Rightarrow> nat option" where
  "usb_monitor_lists_find_port_path ctx pth len = find_port_from 0 (port_list ctx) pth len"

text \<open>
  Modelled from the spec: \<^verbatim>\<open>usb_monitor_lists_add_timeout\<close> and
  \<^verbatim>\<open>usb_monitor_lists_del_timeout\<close> (usb\_monitor\_lists.c is not among the
  sources). Spec, section 4.1: enrolment in and removal from the timeout collection,
  idempotent with respect to whether the port is already enrolled. A new entry goes
  to the head of the list.
\<close>

definition usb_monitor_lists_add_timeout :: "nat \<Rightarrow> usb_monitor_ctx \<Rightarrow> usb_monitor_ctx" where
  "usb_monitor_lists_add_timeout i ctx =
     (if i \<in> set (timeout_list ctx) then ctx
      else ctx\<lparr>timeout_list := i # timeout_list ctx\<rparr>)"

definition usb_monitor_lists_del_timeout :: "nat \<Rightarrow> usb_monitor_ctx \<Rightarrow> usb_monitor_ctx" where
  "usb_monitor_lists_del_timeout i ctx = ctx\<lparr>timeout_list := removeAll i (timeout_list ctx)\<rparr>"

text \<open>
  Modelled from the spec: \<^verbatim>\<open>usb_helpers_start_timeout\<close> (usb\_helpers.c is not
  among the sources). Spec, sections 3 and 4.4: the deadline of a port is an absolute
  time in microseconds; scheduling \<open>timeout_sec\<close> seconds ahead sets it to the
  current time plus that many seconds and enrols the port in the timeout collection.
  \<open>now\<close> is the clock reading in microseconds.
\<close>

definition usb_helpers_start_timeout ::
    "u64 \<Rightarrow> nat \<Rightarrow> u8 \<Rightarrow> usb_monitor_ctx \<Rightarrow> usb_monitor_ctx" where
  "usb_helpers_start_timeout now i timeout_sec ctx =
     usb_monitor_lists_add_timeout i
       (ctx\<lparr>port_list := (port_list ctx)
          [i := (port_list ctx ! i)\<lparr>timeout_expire := now + ucast timeout_sec * 1000000\<rparr>]\<rparr>)"

text \<open>
  Modelled from the spec: \<^verbatim>\<open>usb_helpers_reset_port\<close> (usb\_helpers.c is not among
  the sources). Spec, section 4.2: the port is reset to its unbound state: device
  handle cleared, status NO\_DEV, message mode IDLE, retransmission counter zeroed,
  timeout de-enrolled.
\<close>

definition usb_helpers_reset_port :: "nat \<Rightarrow> usb_monitor_ctx \<Rightarrow> usb_monitor_ctx" where
  "usb_helpers_reset_port i ctx =
     usb_monitor_lists_del_timeout i
       (ctx\<lparr>port_list := (port_list ctx)
          [i := (port_list ctx ! i)\<lparr>dev := None, status := PORT_NO_DEV_CONNECTED,
                                     msg_mode := IDLE, num_retrans := 0\<rparr>]\<rparr>)"

section \<open>Hotplug handling (usb\_monitor.c)\<close>

text \<open>
  The onboarding of a YKUSH hub, \<^verbatim>\<open>ykush_event_cb\<close>, belongs to the YKUSH backend
  and is a parameter \<open>ykush_event_cb\<close> of the functions that route to it.
\<close>

definition usb_device_added ::
    "(libusb_device \<Rightarrow> libusb_hotplug_event \<Rightarrow> usb_monitor_ctx \<Rightarrow> usb_monitor_ctx) \<Rightarrow>
     u64 \<Rightarrow> usb_monitor_ctx \<Rightarrow> libusb_device \<Rightarrow> usb_monitor_ctx" where
  "usb_device_added ykush_event_cb now ctx d =
     (if idVendor d = YKUSH_VID \<and> idProduct d = YKUSH_PID
      then ykush_event_cb d DEVICE_ARRIVED ctx
      else
        (case usb_helpers_fill_port_array d of (pth, len) \<Rightarrow>
          (case usb_monitor_lists_find_port_path ctx pth len of
             None \<Rightarrow> ctx
           | Some i \<Rightarrow>
               if dev (port_list ctx ! i) \<noteq> None \<and> dev (port_list ctx ! i) = Some (dev_ptr d)
               then ctx
               else
                 usb_helpers_start_timeout now i DEFAULT_TIMEOUT_SEC
                   (libusb_ref_device (dev_ptr d)
                     (ctx\<lparr>port_list := (port_list ctx)
                        [i := (port_list ctx ! i)
                           \<lparr>vid := idVendor d, pid := idProduct d,
                            status := PORT_DEV_CONNECTED, dev := Some (dev_ptr d),
                            msg_mode := PING\<rparr>]\<rparr>)))))"

definition usb_device_removed :: "usb_monitor_ctx \<Rightarrow> libusb_device \<Rightarrow> usb_monitor_ctx" where
  "usb_device_removed ctx d =
     (case usb_helpers_fill_port_array d of (pth, len) \<Rightarrow>
       (case usb_monitor_lists_find_port_path ctx pth len of
          None \<Rightarrow> ctx
        | Some i \<Rightarrow> usb_helpers_reset_port i ctx))"

text \<open>The generic device callback; it always returns 0 to the USB library.\<close>

definition usb_monitor_cb ::
    "(libusb_device \<Rightarrow> libusb_hotplug_event \<Rightarrow> usb_monitor_ctx \<Rightarrow> usb_monitor_ctx) \<Rightarrow>
     u64 \<Rightarrow> usb_monitor_ctx \<Rightarrow> libusb_device \<Rightarrow> libusb_hotplug_event \<Rightarrow> usb_monitor_ctx" where
  "usb_monitor_cb ykush_event_cb now ctx device event =
     (if idVendor device = YKUSH_VID \<and> idProduct device = YKUSH_PID
      then ykush_event_cb device event ctx
      else if bDeviceClass device = LIBUSB_CLASS_HUB then ctx
      else if event = DEVICE_ARRIVED then usb_device_added ykush_event_cb now ctx device
      else usb_device_removed ctx device)"

section \<open>Sweeps and the timeout scan (usb\_monitor.c)\<close>

text \<open>
  The operations a backend installs in a port, \<^verbatim>\<open>port->update\<close> and
  \<^verbatim>\<open>port->timeout\<close>, are function pointers of the port; the backends that set them
  are not among the sources. They are parameters here, of the position of the port
  and the context, so that every statement about a sweep holds for whatever operation
  the pointer stands for.

  \<^verbatim>\<open>LIST_FOREACH\<close> over the port list visits the ports in list order; the test of a
  port reads the state the earlier calls have left.
\<close>

fun reset_ports_from ::
    "(nat \<Rightarrow> usb_monitor_ctx \<Rightarrow> usb_monitor_ctx) \<Rightarrow> u8 \<Rightarrow> nat list \<Rightarrow>
     usb_monitor_ctx \<Rightarrow> usb_monitor_ctx" where
  "reset_ports_from update forced [] ctx = ctx"
| "reset_ports_from update forced (itr # rest) ctx =
     reset_ports_from update forced rest
       (if forced \<noteq> 0 \<or>
           (status (port_list ctx ! itr) = PORT_NO_DEV_CONNECTED \<and>
            msg_mode (port_list ctx ! itr) \<noteq> RESET)
        then update itr ctx
        else ctx)"

definition usb_monitor_reset_all_ports ::
    "(nat \<Rightarrow> usb_monitor_ctx \<Rightarrow> usb_monitor_ctx) \<Rightarrow> usb_monitor_ctx \<Rightarrow> u8 \<Rightarrow>
     usb_monitor_ctx" where
  "usb_monitor_reset_all_ports update ctx forced =
     reset_ports_from update forced [0..<length (port_list ctx)] ctx"

definition usb_monitor_signal_handler ::
    "(nat \<Rightarrow> usb_monitor_ctx \<Rightarrow> usb_monitor_ctx) \<Rightarrow> usb_monitor_ctx \<Rightarrow> usb_monitor_ctx" where
  "usb_monitor_signal_handler update ctx = usb_monitor_reset_all_ports update ctx 1"

text \<open>
  The timeout scan walks the timeout list from its head. The successor of an entry is
  read before the entry is detached and its handler runs, and a handler enrols a port
  at the head of the list, so the walk follows the chain as it stood when the scan
  began: the list argument of \<open>check_timeouts_from\<close> is what remains of that chain.
  The deadline of a port is read when the walk reaches it.
\<close>

fun check_timeouts_from ::
    "(nat \<Rightarrow> usb_monitor_ctx \<Rightarrow> usb_monitor_ctx) \<Rightarrow> u64 \<Rightarrow> nat list \<Rightarrow>
     usb_monitor_ctx \<Rightarrow> usb_monitor_ctx" where
  "check_timeouts_from handle_timeout cur_time [] ctx = ctx"
| "check_timeouts_from handle_timeout cur_time (timeout_itr # rest) ctx =
     (if cur_time \<ge> timeout_expire (port_list ctx ! timeout_itr)
      then check_timeouts_from handle_timeout cur_time rest
             (handle_timeout timeout_itr (usb_monitor_lists_del_timeout timeout_itr ctx))
      else check_timeouts_from handle_timeout cur_time rest ctx)"

definition usb_monitor_check_timeouts ::
    "(nat \<Rightarrow> usb_monitor_ctx \<Rightarrow> usb_monitor_ctx) \<Rightarrow> u64 \<Rightarrow> usb_monitor_ctx \<Rightarrow>
     usb_monitor_ctx" where
  "usb_monitor_check_timeouts handle_timeout cur_time ctx =
     check_timeouts_from handle_timeout cur_time (timeout_list ctx) ctx"

text \<open>
  An operation on a port is local when a call for one port leaves every other port
  and the enrolment of every other port as they were.
\<close>

definition port_local :: "(nat \<Rightarrow> usb_monitor_ctx \<Rightarrow> usb_monitor_ctx) \<Rightarrow> bool" where
  "port_local f \<longleftrightarrow>
     (\<forall>i c j. j \<noteq> i \<longrightarrow>
        port_list (f i c) ! j = port_list c ! j \<and>
        (j \<in> set (timeout_list (f i c))) = (j \<in> set (timeout_list c)))"

text \<open>
  Modelled from the spec: the update operation of a backend (ykush\_handler.c and
  gpio\_handler.c are not among the sources). Spec, section 4.4: RESET is entered on
  exceeded probe retransmissions or by the reset-all signal, and on entry the device
  reference is dropped if held, the port is powered off, its assumed power state is
  OFF and a timer is armed for the hold of about one second. Spec, section 4.5 and
  P5: a port already in RESET is not re-entered, so update leaves it as it is. The
  power-on step that ends the hold belongs to the timer fire (section 4.4, step 4)
  and is no part of update.
\<close>

definition port_update :: "u64 \<Rightarrow> nat \<Rightarrow> usb_monitor_ctx \<Rightarrow> usb_monitor_ctx" where
  "port_update now i ctx =
     (if msg_mode (port_list ctx ! i) \<noteq> RESET
      then
        usb_helpers_start_timeout now i 1
          ((case dev (port_list ctx ! i) of
              None \<Rightarrow> ctx
            | Some d \<Rightarrow> libusb_unref_device d ctx)
           \<lparr>port_list := (port_list ctx)
              [i := (port_list ctx ! i)\<lparr>pwr_state := POWER_OFF, msg_mode := RESET\<rparr>]\<rparr>)
      else ctx)"

section \<open>The event loop (main)\<close>

text \<open>
  One tick of the loop: the USB library dispatches the pending hotplug events to
  \<open>usb_monitor_cb\<close>, the timeout scan runs, and the seconds of the clock are compared
  with the two timestamps the loop keeps. \<^verbatim>\<open>usb_helpers_check_devices\<close> is not among
  the sources and is the parameter \<open>check_devices\<close>. The seconds of a \<^verbatim>\<open>timeval\<close> are
  integers. Besides the new timestamps and context, a tick returns the periodic
  sweeps it ran, in order.
\<close>

record loop_times =
  last_restart :: int
  last_dev_check :: int

datatype periodic_sweep = Device_sweep | Restart_sweep

definition main_loop_sweeps ::
    "(usb_monitor_ctx \<Rightarrow> usb_monitor_ctx) \<Rightarrow> (nat \<Rightarrow> usb_monitor_ctx \<Rightarrow> usb_monitor_ctx) \<Rightarrow>
     int \<Rightarrow> loop_times \<Rightarrow> usb_monitor_ctx \<Rightarrow>
     periodic_sweep list \<times> loop_times \<times> usb_monitor_ctx" where
  "main_loop_sweeps check_devices update cur_sec t ctx =
     (if cur_sec - last_dev_check t > 30
      then ([Device_sweep], t\<lparr>last_dev_check := cur_sec\<rparr>, check_devices ctx)
      else if cur_sec - last_restart t > 60
      then ([Restart_sweep], t\<lparr>last_restart := cur_sec\<rparr>,
            usb_monitor_reset_all_ports update ctx 0)
      else ([], t, ctx))"

definition main_loop_tick ::
    "(libusb_device \<Rightarrow> libusb_hotplug_event \<Rightarrow> usb_monitor_ctx \<Rightarrow> usb_monitor_ctx) \<Rightarrow>
     (nat \<Rightarrow> usb_monitor_ctx \<Rightarrow> usb_monitor_ctx) \<Rightarrow>
     (nat \<Rightarrow> usb_monitor_ctx \<Rightarrow> usb_monitor_ctx) \<Rightarrow>
     (usb_monitor_ctx \<Rightarrow> usb_monitor_ctx) \<Rightarrow>
     (u64 \<times> libusb_device \<times> libusb_hotplug_event) list \<Rightarrow> u64 \<Rightarrow> int \<Rightarrow>
     loop_times \<Rightarrow> usb_monitor_ctx \<Rightarrow>
     periodic_sweep list \<times> loop_times \<times> usb_monitor_ctx" where
  "main_loop_tick ykush_event_cb handle_timeout update check_devices events scan_time cur_sec t ctx =
     main_loop_sweeps check_devices update cur_sec t
       (usb_monitor_check_timeouts handle_timeout scan_time
          (fold (\<lambda>(now, device, event) c. usb_monitor_cb ykush_event_cb now c device event)
             events ctx))"

section \<open>Configuration (usb\_monitor.c)\<close>

text \<open>
  The configuration is a JSON document, parsed by the JSON library. The library
  represents the JSON value null by the NULL pointer, which is also what its parser
  returns for a text that is not JSON. \<open>json_object_get_string\<close> is the library's
  function: the string of a string value, NULL for NULL, and for any other value the
  text the library prints for it, which is the parameter \<open>to_json_string\<close>.

  A function that dereferences NULL does not return: its result is \<open>None\<close>.
  Otherwise the result is the value returned and the context.
  \<^verbatim>\<open>gpio_handler_parse_json\<close> belongs to the GPIO backend and is the parameter
  \<open>gpio_handler_parse_json\<close>.
\<close>

datatype json =
    Jnull
  | Jbool bool
  | Jint int
  | Jstring string
  | Jarray "json list"
  | Jobject "(string \<times> json) list"

definition json_object_get_string :: "(json \<Rightarrow> string) \<Rightarrow> json \<Rightarrow> string option" where
  "json_object_get_string to_json_string v =
     (case v of Jnull \<Rightarrow> None | Jstring s \<Rightarrow> Some s | _ \<Rightarrow> Some (to_json_string v))"

text \<open>
  A JSON string may hold the byte 0 (written \<^verbatim>\<open>\u0000\<close> in the document). The C
  library's \<^verbatim>\<open>strcmp\<close> reads each argument only up to its first byte 0:
  \<open>c_str\<close> is the part of a string it sees, and \<open>strcmp_eq a b\<close> says that
  \<^verbatim>\<open>strcmp(a, b)\<close> is 0.
\<close>

definition c_str :: "string \<Rightarrow> string" where
  "c_str s = takeWhile (\<lambda>c. c \<noteq> CHR 0x00) s"

definition strcmp_eq :: "string \<Rightarrow> string \<Rightarrow> bool" where
  "strcmp_eq a b \<longleftrightarrow> c_str a = c_str b"

text \<open>
  The loop over the keys of one handler element. Its state is
  \<open>(handler_name, handler_obj, unknown_elem)\<close>; an unknown key sets
  \<open>unknown_elem\<close> and leaves the loop.
\<close>

fun handler_keys ::
    "(json \<Rightarrow> string) \<Rightarrow> (string \<times> json) list \<Rightarrow> string option \<times> json option \<times> bool \<Rightarrow>
     string option \<times> json option \<times> bool" where
  "handler_keys to_json_string [] st = st"
| "handler_keys to_json_string ((key, val) # rest) (handler_name, handler_obj, unknown_elem) =
     (if strcmp_eq key ''name''
      then handler_keys to_json_string rest
             (json_object_get_string to_json_string val, handler_obj, unknown_elem)
      else if strcmp_eq key ''ports''
      then handler_keys to_json_string rest
             (handler_name, (if val = Jnull then None else Some val), unknown_elem)
      else (handler_name, handler_obj, True))"

fun parse_handlers_from ::
    "(usb_monitor_ctx \<Rightarrow> json \<Rightarrow> u8 \<times> usb_monitor_ctx) \<Rightarrow> (json \<Rightarrow> string) \<Rightarrow>
     json list \<Rightarrow> bool \<Rightarrow> usb_monitor_ctx \<Rightarrow> (u8 \<times> usb_monitor_ctx) option" where
  "parse_handlers_from gpio_handler_parse_json to_json_string [] unknown_elem ctx = Some (0, ctx)"
| "parse_handlers_from gpio_handler_parse_json to_json_string (arr_obj # rest) unknown_elem ctx =
     (case arr_obj of
        Jobject kvs \<Rightarrow>
          (case handler_keys to_json_string kvs (None, None, unknown_elem) of
             (Some handler_name, Some handler_obj, False) \<Rightarrow>
               if strcmp_eq ''GPIO'' handler_name
               then (case gpio_handler_parse_json ctx handler_obj of
                       (r, ctx') \<Rightarrow>
                         if r \<noteq> 0 then Some (1, ctx')
                         else parse_handlers_from gpio_handler_parse_json to_json_string
                                rest False ctx')
               else Some (1, ctx)
           | _ \<Rightarrow> Some (1, ctx))
      | _ \<Rightarrow> None)"

definition usb_monitor_parse_handlers ::
    "(usb_monitor_ctx \<Rightarrow> json \<Rightarrow> u8 \<times> usb_monitor_ctx) \<Rightarrow> (json \<Rightarrow> string) \<Rightarrow>
     usb_monitor_ctx \<Rightarrow> json list \<Rightarrow> (u8 \<times> usb_monitor_ctx) option" where
  "usb_monitor_parse_handlers gpio_handler_parse_json to_json_string ctx handlers =
     parse_handlers_from gpio_handler_parse_json to_json_string handlers False ctx"

text \<open>
  What reading the configuration file gave: the file could not be opened, reading it
  failed, or the JSON library parsed the bytes read into \<open>conf_json\<close>. Only the
  head entry of the top-level object is read.
\<close>

datatype config_file = Open_failed | Read_failed | Contents json

definition usb_monitor_parse_config ::
    "(usb_monitor_ctx \<Rightarrow> json \<Rightarrow> u8 \<times> usb_monitor_ctx) \<Rightarrow> (json \<Rightarrow> string) \<Rightarrow>
     usb_monitor_ctx \<Rightarrow> config_file \<Rightarrow> (u8 \<times> usb_monitor_ctx) option" where
  "usb_monitor_parse_config gpio_handler_parse_json to_json_string ctx conf_file =
     (case conf_file of
        Open_failed \<Rightarrow> Some (1, ctx)
      | Read_failed \<Rightarrow> Some (1, ctx)
      | Contents conf_json \<Rightarrow>
          (case conf_json of
             Jnull \<Rightarrow> Some (1, ctx)
           | Jobject ((obj_name, top_value) # others) \<Rightarrow>
               if \<not> strcmp_eq ''handlers'' obj_name then Some (1, ctx)
               else (case top_value of
                       Jarray handlers \<Rightarrow>
                         usb_monitor_parse_handlers gpio_handler_parse_json to_json_string
                           ctx handlers
                     | _ \<Rightarrow> Some (1, ctx))
           | _ \<Rightarrow> None))"

text \<open>
  A handler element is refused by name or key when one of its keys is neither
  \<open>name\<close> nor \<open>ports\<close>, or when the string of its \<open>name\<close> value is not \<open>GPIO\<close>,
  each as \<^verbatim>\<open>strcmp\<close> reads it. The JSON library keeps one entry per key.
\<close>

definition name_is_gpio :: "string option \<Rightarrow> bool" where
  "name_is_gpio handler_name =
     (case handler_name of None \<Rightarrow> False | Some s \<Rightarrow> strcmp_eq ''GPIO'' s)"

definition unknown_key :: "(string \<times> json) list \<Rightarrow> bool" where
  "unknown_key kvs =
     list_ex (\<lambda>(key, val). \<not> strcmp_eq key ''name'' \<and> \<not> strcmp_eq key ''ports'') kvs"

definition unknown_name :: "(json \<Rightarrow> string) \<Rightarrow> (string \<times> json) list \<Rightarrow> bool" where
  "unknown_name to_json_string kvs =
     list_ex (\<lambda>(key, val). strcmp_eq key ''name'' \<and>
                \<not> name_is_gpio (json_object_get_string to_json_string val)) kvs"

fun handler_element :: "json \<Rightarrow> bool" where
  "handler_element (Jobject kvs) = distinct (map (\<lambda>(key, val). c_str key) kvs)"
| "handler_element _ = False"

fun refused_handler :: "(json \<Rightarrow> string) \<Rightarrow> json \<Rightarrow> bool" where
  "refused_handler to_json_string (Jobject kvs) =
     (unknown_key kvs \<or> unknown_name to_json_string kvs)"
| "refused_handler to_json_string _ = False"

section \<open>Example states\<close>

definition ex_port :: usb_port where
  "ex_port = \<lparr>dev = None, timeout_expire = 0, vid = 0, pid = 0,
     status = PORT_NO_DEV_CONNECTED, pwr_state = POWER_ON, msg_mode = IDLE,
     path_len = 2, num_retrans = 0, ping_cnt = 0, port_num = 2,
     path = [1, 2, 0, 0, 0, 0, 0, 0]\<rparr>"

definition ex_modem :: libusb_device where
  "ex_modem = \<lparr>dev_ptr = 7, idVendor = 0x12d1, idProduct = 0x1506, bDeviceClass = 0,
     bus_number = 1, port_numbers = [2]\<rparr>"

definition ex_other :: libusb_device where
  "ex_other = \<lparr>dev_ptr = 9, idVendor = 0x0bda, idProduct = 0x8152, bDeviceClass = 0,
     bus_number = 1, port_numbers = [2]\<rparr>"

definition ex_hub :: libusb_device where
  "ex_hub = \<lparr>dev_ptr = 11, idVendor = 0x05e3, idProduct = 0x0608, bDeviceClass = 9,
     bus_number = 1, port_numbers = [2]\<rparr>"

definition ex_no_ykush ::
    "libusb_device \<Rightarrow> libusb_hotplug_event \<Rightarrow> usb_monitor_ctx \<Rightarrow> usb_monitor_ctx" where
  "ex_no_ykush d e ctx = ctx"

definition ex_ctx_unbound :: usb_monitor_ctx where
  "ex_ctx_unbound = \<lparr>port_list = [ex_port], timeout_list = [], dev_refs = (\<lambda>d. 0)\<rparr>"

definition ex_ctx_bound :: usb_monitor_ctx where
  "ex_ctx_bound = \<lparr>port_list =
       [ex_port\<lparr>dev := Some 7, timeout_expire := 5000000, vid := 0x12d1, pid := 0x1506,
                status := PORT_DEV_CONNECTED, msg_mode := PING, num_retrans := 2\<rparr>],
     timeout_list = [0], dev_refs = (\<lambda>d. if d = 7 then 1 else 0)\<rparr>"

text \<open>
  Three ports: one free and idle, one bound and being probed, one in RESET with its
  power held off.
\<close>

definition ex_ctx_sweep :: usb_monitor_ctx where
  "ex_ctx_sweep = \<lparr>port_list =
       [ex_port,
        ex_port\<lparr>dev := Some 5, timeout_expire := 20000000, vid := 0x12d1, pid := 0x1506,
                status := PORT_DEV_CONNECTED, msg_mode := PING, path_len := 2, port_num := 1,
                path := [1, 1, 0, 0, 0, 0, 0, 0]\<rparr>,
        ex_port\<lparr>timeout_expire := 4000000, pwr_state := POWER_OFF, msg_mode := RESET,
                path_len := 2, port_num := 3, path := [1, 3, 0, 0, 0, 0, 0, 0]\<rparr>],
     timeout_list = [2, 1], dev_refs = (\<lambda>d. if d = 5 then 1 else 0)\<rparr>"

text \<open>
  A GPIO handler parser that accepts every payload, a printer of JSON values, and a
  device sweep that finds the modem and synthesizes its arrival.
\<close>

definition ex_gpio_accepts :: "usb_monitor_ctx \<Rightarrow> json \<Rightarrow> u8 \<times> usb_monitor_ctx" where
  "ex_gpio_accepts ctx ports = (0, ctx)"

definition ex_to_json_string :: "json \<Rightarrow> string" where
  "ex_to_json_string v = ''<json>''"

definition ex_check_devices :: "usb_monitor_ctx \<Rightarrow> usb_monitor_ctx" where
  "ex_check_devices ctx = usb_device_added ex_no_ykush 100000000 ctx ex_modem"

definition ex_gpio_handler :: json where
  "ex_gpio_handler = Jobject [(''name'', Jstring ''GPIO''), (''ports'', Jarray [Jint 17])]"

section \<open>Facts about the helpers\<close>

lemma find_port_from_range:
  "find_port_from k ps pth len = Some i \<Longrightarrow> k \<le> i \<and> i < k + length ps"
  by (induction ps arbitrary: k) (fastforce split: if_splits)+

lemma find_port_path_in_range:
  "usb_monitor_lists_find_port_path ctx pth len = Some i \<Longrightarrow> i < length (port_list ctx)"
  using find_port_from_range [of 0 "port_list ctx" pth len i]
  by (simp add: usb_monitor_lists_find_port_path_def)

lemma usb_device_added_binds:
  assumes "\<not> (idVendor d = YKUSH_VID \<and> idProduct d = YKUSH_PID)"
    and "usb_helpers_fill_port_array d = (pth, len)"
    and "usb_monitor_lists_find_port_path ctx pth len = Some i"
    and "dev (port_list ctx ! i) \<noteq> Some (dev_ptr d)"
  shows "usb_device_added ykush_event_cb now ctx d =
     ctx\<lparr>port_list := (port_list ctx)
            [i := (port_list ctx ! i)
               \<lparr>dev := Some (dev_ptr d), timeout_expire := now + 5000000,
                vid := idVendor d, pid := idProduct d,
                status := PORT_DEV_CONNECTED, msg_mode := PING\<rparr>],
         timeout_list :=
           (if i \<in> set (timeout_list ctx) then timeout_list ctx else i # timeout_list ctx),
         dev_refs := (dev_refs ctx)(dev_ptr d := Suc (dev_refs ctx (dev_ptr d)))\<rparr>"
proof -
  have "i < length (port_list ctx)"
    using assms(3) by (rule find_port_path_in_range)
  then show ?thesis
    using assms
    by (intro usb_monitor_ctx.equality)
       (auto simp add: usb_device_added_def usb_helpers_start_timeout_def
          usb_monitor_lists_add_timeout_def libusb_ref_device_def DEFAULT_TIMEOUT_SEC_def
          intro!: arg_cong [where f = "list_update (port_list ctx) i"] usb_port.equality)
qed

section \<open>Device arrival and departure\<close>

lemmas ex_defs = ex_ctx_unbound_def ex_ctx_bound_def ex_modem_def ex_other_def ex_hub_def
  ex_port_def ex_no_ykush_def

lemmas hotplug_defs = usb_device_added_def usb_device_removed_def usb_monitor_cb_def
  YKUSH_VID_def YKUSH_PID_def LIBUSB_CLASS_HUB_def usb_helpers_fill_port_array_def USB_PATH_MAX_def
  usb_monitor_lists_find_port_path_def usb_helpers_start_timeout_def usb_monitor_lists_add_timeout_def
  usb_monitor_lists_del_timeout_def usb_helpers_reset_port_def
  libusb_ref_device_def DEFAULT_TIMEOUT_SEC_def

lemma find_port_from_update:
  "path p' = path (ps ! i) \<Longrightarrow> path_len p' = path_len (ps ! i) \<Longrightarrow>
   find_port_from k (ps[i := p']) pth len = find_port_from k ps pth len"
proof (induction ps arbitrary: k i)
  case Nil
  then show ?case by simp
next
  case (Cons p ps)
  then show ?case by (cases i) auto
qed

text \<open>
  Claim C1, evaluated. An arrival that binds a device to a free port sets vendor and
  product identifiers, status DEV\_CONNECTED, message mode PING, takes a device
  reference and enrols the port, but the deadline is the clock reading plus
  \<open>DEFAULT_TIMEOUT_SEC\<close>, five seconds, and not plus the ten seconds of
  \<open>ADDED_TIMEOUT_SEC\<close>, which the header defines and the function does not use:
  at the clock reading 1000000 the deadline is 6000000.
\<close>

theorem usb_device_added_deadline_is_five_seconds:
  "usb_helpers_fill_port_array ex_modem = ([1, 2], 2) \<and>
   usb_monitor_lists_find_port_path ex_ctx_unbound [1, 2] 2 = Some 0 \<and>
   dev (port_list ex_ctx_unbound ! 0) = None \<and>
   port_list (usb_device_added ex_no_ykush 1000000 ex_ctx_unbound ex_modem) =
     [ex_port\<lparr>dev := Some 7, timeout_expire := 1000000 + 5 * 1000000,
              vid := 0x12d1, pid := 0x1506, status := PORT_DEV_CONNECTED,
              msg_mode := PING\<rparr>] \<and>
   timeout_list (usb_device_added ex_no_ykush 1000000 ex_ctx_unbound ex_modem) = [0] \<and>
   dev_refs (usb_device_added ex_no_ykush 1000000 ex_ctx_unbound ex_modem) 7 = 1 \<and>
   timeout_expire (port_list (usb_device_added ex_no_ykush 1000000 ex_ctx_unbound ex_modem) ! 0)
     \<noteq> 1000000 + ucast ADDED_TIMEOUT_SEC * 1000000"
  by (simp add: ex_defs hotplug_defs ADDED_TIMEOUT_SEC_def)

text \<open>
  Claim C2 as stated fails: the port at path (1, 2) holds device 7 and device 9
  departs from the same path. The departure is not ignored; the port is reset.
\<close>

theorem usb_device_removed_other_device_counterexample:
  "dev (port_list ex_ctx_bound ! 0) = Some 7 \<and> dev_ptr ex_other = 9 \<and>
   usb_helpers_fill_port_array ex_other = ([1, 2], 2) \<and>
   usb_monitor_lists_find_port_path ex_ctx_bound [1, 2] 2 = Some 0 \<and>
   status (port_list ex_ctx_bound ! 0) = PORT_DEV_CONNECTED \<and>
   msg_mode (port_list ex_ctx_bound ! 0) = PING \<and>
   num_retrans (port_list ex_ctx_bound ! 0) = 2 \<and>
   timeout_list ex_ctx_bound = [0] \<and>
   dev (port_list (usb_device_removed ex_ctx_bound ex_other) ! 0) = None \<and>
   status (port_list (usb_device_removed ex_ctx_bound ex_other) ! 0) = PORT_NO_DEV_CONNECTED \<and>
   msg_mode (port_list (usb_device_removed ex_ctx_bound ex_other) ! 0) = IDLE \<and>
   num_retrans (port_list (usb_device_removed ex_ctx_bound ex_other) ! 0) = 0 \<and>
   timeout_list (usb_device_removed ex_ctx_bound ex_other) = [] \<and>
   usb_monitor_cb ex_no_ykush 9000000 ex_ctx_bound ex_other DEVICE_LEFT =
     usb_device_removed ex_ctx_bound ex_other"
  by (simp add: ex_defs hotplug_defs)

text \<open>
  Claim C2, amended. For every device departure whose topological path resolves to a
  port, the port is reset to its unbound state whichever device it holds, also a
  different one than the departing device: device binding cleared, status NO\_DEV,
  message mode IDLE, retransmission counter zero, timeout de-enrolled. A departure
  whose path resolves to no port changes nothing.
\<close>

theorem usb_device_removed_resets_port:
  assumes "usb_helpers_fill_port_array d = (pth, len)"
  shows "(usb_monitor_lists_find_port_path ctx pth len = Some i \<longrightarrow>
            dev (port_list (usb_device_removed ctx d) ! i) = None \<and>
            status (port_list (usb_device_removed ctx d) ! i) = PORT_NO_DEV_CONNECTED \<and>
            msg_mode (port_list (usb_device_removed ctx d) ! i) = IDLE \<and>
            num_retrans (port_list (usb_device_removed ctx d) ! i) = 0 \<and>
            i \<notin> set (timeout_list (usb_device_removed ctx d))) \<and>
         (usb_monitor_lists_find_port_path ctx pth len = None \<longrightarrow>
            usb_device_removed ctx d = ctx)"
proof -
  have "i < length (port_list ctx)"
    if "usb_monitor_lists_find_port_path ctx pth len = Some i"
    using that by (rule find_port_path_in_range)
  then show ?thesis
    using assms
    by (simp add: usb_device_removed_def usb_helpers_reset_port_def
        usb_monitor_lists_del_timeout_def)
qed

theorem usb_device_removed_resets_port_witness:
  "usb_helpers_fill_port_array ex_other = ([1, 2], 2) \<and>
   usb_monitor_lists_find_port_path ex_ctx_bound [1, 2] 2 = Some 0 \<and>
   dev (port_list ex_ctx_bound ! 0) = Some 7 \<and> dev_ptr ex_other = 9 \<and>
   dev (port_list (usb_device_removed ex_ctx_bound ex_other) ! 0) = None \<and>
   status (port_list (usb_device_removed ex_ctx_bound ex_other) ! 0) = PORT_NO_DEV_CONNECTED \<and>
   msg_mode (port_list (usb_device_removed ex_ctx_bound ex_other) ! 0) = IDLE \<and>
   num_retrans (port_list (usb_device_removed ex_ctx_bound ex_other) ! 0) = 0 \<and>
   0 \<notin> set (timeout_list (usb_device_removed ex_ctx_bound ex_other))"
proof -
  have b: "usb_helpers_fill_port_array ex_other = ([1, 2], 2)"
    by (simp add: ex_other_def usb_helpers_fill_port_array_def USB_PATH_MAX_def)
  have c: "usb_monitor_lists_find_port_path ex_ctx_bound [1, 2] 2 = Some 0"
    by (simp add: usb_monitor_lists_find_port_path_def ex_ctx_bound_def ex_port_def)
  have e: "dev (port_list ex_ctx_bound ! 0) = Some 7 \<and> dev_ptr ex_other = 9"
    by (simp add: ex_ctx_bound_def ex_other_def)
  show ?thesis
    using usb_device_removed_resets_port [OF b, of ex_ctx_bound 0] b c e
    by simp
qed

lemma usb_monitor_cb_ignores_hub:
  "\<not> (idVendor d = YKUSH_VID \<and> idProduct d = YKUSH_PID) \<Longrightarrow>
   bDeviceClass d = LIBUSB_CLASS_HUB \<Longrightarrow>
   usb_monitor_cb ykush_event_cb now ctx d event = ctx"
  by (auto simp add: usb_monitor_cb_def)

text \<open>
  Claim C8, evaluated. A device of class hub that is not the YKUSH is ignored by the
  hotplug callback \<open>usb_monitor_cb\<close>, but \<open>usb_device_added\<close>, which the manual
  device walk calls, has no test of the device class: it binds the hub to the port at
  its path.
\<close>

theorem usb_device_added_binds_nested_hub:
  "bDeviceClass ex_hub = LIBUSB_CLASS_HUB \<and>
   \<not> (idVendor ex_hub = YKUSH_VID \<and> idProduct ex_hub = YKUSH_PID) \<and>
   usb_monitor_cb ex_no_ykush 1000000 ex_ctx_unbound ex_hub DEVICE_ARRIVED = ex_ctx_unbound \<and>
   port_list ex_ctx_unbound = [ex_port] \<and>
   port_list (usb_device_added ex_no_ykush 1000000 ex_ctx_unbound ex_hub) =
     [ex_port\<lparr>dev := Some 11, timeout_expire := 6000000, vid := 0x05e3, pid := 0x0608,
              status := PORT_DEV_CONNECTED, msg_mode := PING\<rparr>] \<and>
   timeout_list (usb_device_added ex_no_ykush 1000000 ex_ctx_unbound ex_hub) = [0]"
  by (simp add: ex_defs hotplug_defs)

text \<open>
  Claim C9. Processing a device arrival is idempotent with respect to an already-bound
  port. For a device that is not the YKUSH hub and whose path resolves to port \<open>i\<close>:
  if the port already holds exactly this device, the arrival (through
  \<open>usb_device_added\<close> or through the hotplug callback) returns the context as it
  was, so every field of the port, the reference counts and the timeout list are
  unchanged; and in any case a second arrival of the device changes nothing the
  first has not done.
\<close>

theorem usb_device_added_same_device:
  assumes "\<not> (idVendor d = YKUSH_VID \<and> idProduct d = YKUSH_PID)"
    and "usb_helpers_fill_port_array d = (pth, len)"
    and "usb_monitor_lists_find_port_path ctx pth len = Some i"
  shows "(dev (port_list ctx ! i) = Some (dev_ptr d) \<longrightarrow>
           usb_device_added ykush_event_cb now ctx d = ctx \<and>
           usb_monitor_cb ykush_event_cb now ctx d DEVICE_ARRIVED = ctx) \<and>
         usb_device_added ykush_event_cb now' (usb_device_added ykush_event_cb now ctx d) d =
           usb_device_added ykush_event_cb now ctx d"
proof -
  have same: "usb_device_added ykush_event_cb t c d = c"
    if "usb_monitor_lists_find_port_path c pth len = Some i"
      and "dev (port_list c ! i) = Some (dev_ptr d)" for t c
    using that assms(1,2) by (auto simp add: usb_device_added_def)
  have first: "dev (port_list ctx ! i) = Some (dev_ptr d) \<longrightarrow>
           usb_device_added ykush_event_cb now ctx d = ctx \<and>
           usb_monitor_cb ykush_event_cb now ctx d DEVICE_ARRIVED = ctx"
    using same [OF assms(3)] assms(1) by (auto simp add: usb_monitor_cb_def)
  have second: "usb_device_added ykush_event_cb now' (usb_device_added ykush_event_cb now ctx d) d =
           usb_device_added ykush_event_cb now ctx d"
  proof (cases "dev (port_list ctx ! i) = Some (dev_ptr d)")
    case True
    then show ?thesis using same [OF assms(3)] by simp
  next
    case False
    have len: "i < length (port_list ctx)"
      using assms(3) by (rule find_port_path_in_range)
    let ?c = "usb_device_added ykush_event_cb now ctx d"
    have eq: "?c = ctx\<lparr>port_list := (port_list ctx)
            [i := (port_list ctx ! i)
               \<lparr>dev := Some (dev_ptr d), timeout_expire := now + 5000000,
                vid := idVendor d, pid := idProduct d,
                status := PORT_DEV_CONNECTED, msg_mode := PING\<rparr>],
         timeout_list :=
           (if i \<in> set (timeout_list ctx) then timeout_list ctx else i # timeout_list ctx),
         dev_refs := (dev_refs ctx)(dev_ptr d := Suc (dev_refs ctx (dev_ptr d)))\<rparr>"
      using assms False by (rule usb_device_added_binds)
    have "usb_monitor_lists_find_port_path ?c pth len = Some i"
      using assms(3) by (simp add: eq usb_monitor_lists_find_port_path_def find_port_from_update)
    moreover have "dev (port_list ?c ! i) = Some (dev_ptr d)"
      using len by (simp add: eq)
    ultimately show ?thesis by (rule same)
  qed
  from first second show ?thesis by blast
qed

theorem usb_device_added_same_device_witness:
  "dev (port_list ex_ctx_bound ! 0) = Some (dev_ptr ex_modem) \<and>
   usb_helpers_fill_port_array ex_modem = ([1, 2], 2) \<and>
   usb_monitor_lists_find_port_path ex_ctx_bound [1, 2] 2 = Some 0 \<and>
   usb_device_added ex_no_ykush 9000000 ex_ctx_bound ex_modem = ex_ctx_bound \<and>
   usb_monitor_cb ex_no_ykush 9000000 ex_ctx_bound ex_modem DEVICE_ARRIVED = ex_ctx_bound"
proof -
  have a: "\<not> (idVendor ex_modem = YKUSH_VID \<and> idProduct ex_modem = YKUSH_PID)"
    by (simp add: ex_modem_def YKUSH_VID_def)
  have b: "usb_helpers_fill_port_array ex_modem = ([1, 2], 2)"
    by (simp add: ex_modem_def usb_helpers_fill_port_array_def USB_PATH_MAX_def)
  have c: "usb_monitor_lists_find_port_path ex_ctx_bound [1, 2] 2 = Some 0"
    by (simp add: usb_monitor_lists_find_port_path_def ex_ctx_bound_def ex_port_def)
  have e: "dev (port_list ex_ctx_bound ! 0) = Some (dev_ptr ex_modem)"
    by (simp add: ex_ctx_bound_def ex_modem_def)
  show ?thesis
    using usb_device_added_same_device [OF a b c, of ex_no_ykush 9000000 9000000] b c e
    by simp
qed

text \<open>
  Claim C10. If a device arrives at a path whose port is bound to a different device
  \<open>old\<close>, the port is rebound: device, vendor and product identifiers are
  overwritten, status is DEV\_CONNECTED, message mode is PING, the new device is
  referenced and a timeout is started. Nothing else changes: the reference count of
  \<open>old\<close> and the retransmission counter stay as they were, which a departure
  would have changed.
\<close>

theorem usb_device_added_rebinds:
  assumes "\<not> (idVendor d = YKUSH_VID \<and> idProduct d = YKUSH_PID)"
    and "usb_helpers_fill_port_array d = (pth, len)"
    and "usb_monitor_lists_find_port_path ctx pth len = Some i"
    and "dev (port_list ctx ! i) = Some old"
    and "old \<noteq> dev_ptr d"
  shows "usb_device_added ykush_event_cb now ctx d =
           ctx\<lparr>port_list := (port_list ctx)
                  [i := (port_list ctx ! i)
                     \<lparr>dev := Some (dev_ptr d),
                      timeout_expire := now + ucast DEFAULT_TIMEOUT_SEC * 1000000,
                      vid := idVendor d, pid := idProduct d,
                      status := PORT_DEV_CONNECTED, msg_mode := PING\<rparr>],
               timeout_list :=
                 (if i \<in> set (timeout_list ctx) then timeout_list ctx
                  else i # timeout_list ctx),
               dev_refs := (dev_refs ctx)(dev_ptr d := Suc (dev_refs ctx (dev_ptr d)))\<rparr> \<and>
         dev (port_list (usb_device_added ykush_event_cb now ctx d) ! i) = Some (dev_ptr d) \<and>
         num_retrans (port_list (usb_device_added ykush_event_cb now ctx d) ! i) =
           num_retrans (port_list ctx ! i) \<and>
         i \<in> set (timeout_list (usb_device_added ykush_event_cb now ctx d)) \<and>
         dev_refs (usb_device_added ykush_event_cb now ctx d) (dev_ptr d) =
           Suc (dev_refs ctx (dev_ptr d)) \<and>
         dev_refs (usb_device_added ykush_event_cb now ctx d) old = dev_refs ctx old"
proof -
  have len: "i < length (port_list ctx)"
    using assms(3) by (rule find_port_path_in_range)
  have other: "dev (port_list ctx ! i) \<noteq> Some (dev_ptr d)"
    using assms(4,5) by simp
  have eq: "usb_device_added ykush_event_cb now ctx d =
     ctx\<lparr>port_list := (port_list ctx)
            [i := (port_list ctx ! i)
               \<lparr>dev := Some (dev_ptr d), timeout_expire := now + 5000000,
                vid := idVendor d, pid := idProduct d,
                status := PORT_DEV_CONNECTED, msg_mode := PING\<rparr>],
         timeout_list :=
           (if i \<in> set (timeout_list ctx) then timeout_list ctx else i # timeout_list ctx),
         dev_refs := (dev_refs ctx)(dev_ptr d := Suc (dev_refs ctx (dev_ptr d)))\<rparr>"
    using assms(1-3) other by (rule usb_device_added_binds)
  show ?thesis
    using len assms(5) by (simp add: eq DEFAULT_TIMEOUT_SEC_def)
qed

theorem usb_device_added_rebinds_witness:
  "dev (port_list ex_ctx_bound ! 0) = Some 7 \<and> dev_ptr ex_other = 9 \<and>
   usb_helpers_fill_port_array ex_other = ([1, 2], 2) \<and>
   usb_monitor_lists_find_port_path ex_ctx_bound [1, 2] 2 = Some 0 \<and>
   port_list (usb_device_added ex_no_ykush 9000000 ex_ctx_bound ex_other) =
     [ex_port\<lparr>dev := Some 9, timeout_expire := 14000000, vid := 0x0bda, pid := 0x8152,
              status := PORT_DEV_CONNECTED, msg_mode := PING, num_retrans := 2\<rparr>] \<and>
   timeout_list (usb_device_added ex_no_ykush 9000000 ex_ctx_bound ex_other) = [0] \<and>
   dev_refs (usb_device_added ex_no_ykush 9000000 ex_ctx_bound ex_other) 9 = 1 \<and>
   dev_refs (usb_device_added ex_no_ykush 9000000 ex_ctx_bound ex_other) 7 = 1"
proof -
  have a: "\<not> (idVendor ex_other = YKUSH_VID \<and> idProduct ex_other = YKUSH_PID)"
    by (simp add: ex_other_def YKUSH_VID_def)
  have b: "usb_helpers_fill_port_array ex_other = ([1, 2], 2)"
    by (simp add: ex_other_def usb_helpers_fill_port_array_def USB_PATH_MAX_def)
  have c: "usb_monitor_lists_find_port_path ex_ctx_bound [1, 2] 2 = Some 0"
    by (simp add: usb_monitor_lists_find_port_path_def ex_ctx_bound_def ex_port_def)
  have e: "dev (port_list ex_ctx_bound ! 0) = Some 7"
    by (simp add: ex_ctx_bound_def)
  have f: "7 \<noteq> dev_ptr ex_other"
    by (simp add: ex_other_def)
  show ?thesis
    using usb_device_added_rebinds [OF a b c e f, of ex_no_ykush 9000000] b c e
    by (simp add: ex_ctx_bound_def ex_other_def ex_port_def DEFAULT_TIMEOUT_SEC_def)
qed

section \<open>Sweeps and the timeout scan: proofs\<close>

lemma port_local_others:
  "port_local f \<Longrightarrow> j \<noteq> i \<Longrightarrow>
   port_list (f i c) ! j = port_list c ! j \<and>
   (j \<in> set (timeout_list (f i c))) = (j \<in> set (timeout_list c))"
  by (simp add: port_local_def)

lemma port_local_fold:
  "port_local f \<Longrightarrow> j \<notin> set js \<Longrightarrow>
   port_list (fold f js c) ! j = port_list c ! j \<and>
   (j \<in> set (timeout_list (fold f js c))) = (j \<in> set (timeout_list c))"
proof (induction js arbitrary: c)
  case Nil
  then show ?case by simp
next
  case (Cons a js)
  then have "j \<noteq> a" and "j \<notin> set js" by auto
  with Cons.IH [OF Cons.prems(1), of "f a c"] port_local_others [OF Cons.prems(1), of j a c]
  show ?case by simp
qed

lemma port_local_detach:
  "port_local h \<Longrightarrow> port_local (\<lambda>i c. h i (usb_monitor_lists_del_timeout i c))"
  by (simp add: port_local_def usb_monitor_lists_del_timeout_def)

lemma port_local_port_update: "port_local (port_update now)"
  by (auto simp add: port_local_def port_update_def usb_helpers_start_timeout_def
      usb_monitor_lists_add_timeout_def libusb_unref_device_def split: option.splits)





lemma reset_ports_from_periodic:
  "port_local update \<Longrightarrow> distinct js \<Longrightarrow>
   reset_ports_from update 0 js ctx =
     fold update
       (filter (\<lambda>i. status (port_list ctx ! i) = PORT_NO_DEV_CONNECTED \<and>
                     msg_mode (port_list ctx ! i) \<noteq> RESET) js) ctx"
proof (induction js arbitrary: ctx)
  case Nil
  then show ?case by simp
next
  case (Cons a js)
  let ?g = "\<lambda>c i. status (port_list c ! i) = PORT_NO_DEV_CONNECTED \<and>
                     msg_mode (port_list c ! i) \<noteq> RESET"
  have rest: "filter (?g (update a ctx)) js = filter (?g ctx) js"
  proof (rule filter_cong [OF refl])
    fix j assume "j \<in> set js"
    with Cons.prems(2) have "j \<noteq> a" by auto
    then show "?g (update a ctx) j = ?g ctx j"
      using port_local_others [OF Cons.prems(1), of j a ctx] by simp
  qed
  from Cons.prems(2) have d: "distinct js" by simp
  show ?case
    using Cons.IH [OF Cons.prems(1) d, of "update a ctx"] Cons.IH [OF Cons.prems(1) d, of ctx] rest
    by simp
qed

lemma reset_ports_from_cong:
  "(\<And>i c. status (port_list c ! i) = PORT_NO_DEV_CONNECTED \<and> msg_mode (port_list c ! i) \<noteq> RESET
      \<Longrightarrow> update' i c = update i c) \<Longrightarrow>
   reset_ports_from update' 0 js ctx = reset_ports_from update 0 js ctx"
  by (induction js arbitrary: ctx) simp_all

lemma check_timeouts_from_fold:
  "port_local h \<Longrightarrow> distinct js \<Longrightarrow>
   check_timeouts_from h cur_time js ctx =
     fold (\<lambda>i c. h i (usb_monitor_lists_del_timeout i c))
       (filter (\<lambda>i. timeout_expire (port_list ctx ! i) \<le> cur_time) js) ctx"
proof (induction js arbitrary: ctx)
  case Nil
  then show ?case by simp
next
  case (Cons a js)
  let ?c = "h a (usb_monitor_lists_del_timeout a ctx)"
  have rest: "filter (\<lambda>i. timeout_expire (port_list ?c ! i) \<le> cur_time) js =
              filter (\<lambda>i. timeout_expire (port_list ctx ! i) \<le> cur_time) js"
  proof (rule filter_cong [OF refl])
    fix j assume "j \<in> set js"
    with Cons.prems(2) have "j \<noteq> a" by auto
    then show "(timeout_expire (port_list ?c ! j) \<le> cur_time) =
               (timeout_expire (port_list ctx ! j) \<le> cur_time)"
      using port_local_others [OF port_local_detach [OF Cons.prems(1)], of j a ctx] by simp
  qed
  from Cons.prems(2) have d: "distinct js" by simp
  show ?case
    using Cons.IH [OF Cons.prems(1) d, of ?c] Cons.IH [OF Cons.prems(1) d, of ctx] rest
    by simp
qed

lemma check_timeouts_from_cong:
  "(\<And>i c. i \<notin> set (timeout_list c) \<Longrightarrow> g i c = h i c) \<Longrightarrow>
   check_timeouts_from g cur_time js ctx = check_timeouts_from h cur_time js ctx"
proof (induction js arbitrary: ctx)
  case Nil
  then show ?case by simp
next
  case (Cons a js)
  have "a \<notin> set (timeout_list (usb_monitor_lists_del_timeout a ctx))"
    by (simp add: usb_monitor_lists_del_timeout_def)
  then have "g a (usb_monitor_lists_del_timeout a ctx) = h a (usb_monitor_lists_del_timeout a ctx)"
    by (rule Cons.prems)
  then show ?case
    using Cons.IH [OF Cons.prems] by simp
qed

lemmas sweep_defs = usb_monitor_reset_all_ports_def usb_monitor_signal_handler_def
  usb_monitor_check_timeouts_def port_update_def usb_helpers_start_timeout_def
  usb_monitor_lists_add_timeout_def usb_monitor_lists_del_timeout_def libusb_unref_device_def
  ex_ctx_sweep_def ex_port_def






text \<open>
  Claim C5. For a local update operation, the periodic (not forced) sweep is the fold
  of update over exactly the ports that have status NO\_DEV and are not in RESET;
  every other port and its enrolment are as before the sweep; and the sweep consults
  update only at such ports: an operation that agrees with update on ports with
  status NO\_DEV that are not in RESET gives the same sweep.
\<close>

theorem periodic_sweep_updates_free_ports:
  assumes "port_local update"
  shows "usb_monitor_reset_all_ports update ctx 0 =
           fold update
             (filter (\<lambda>i. status (port_list ctx ! i) = PORT_NO_DEV_CONNECTED \<and>
                           msg_mode (port_list ctx ! i) \<noteq> RESET)
                [0..<length (port_list ctx)]) ctx \<and>
         (\<forall>j. \<not> (status (port_list ctx ! j) = PORT_NO_DEV_CONNECTED \<and>
                  msg_mode (port_list ctx ! j) \<noteq> RESET) \<longrightarrow>
            port_list (usb_monitor_reset_all_ports update ctx 0) ! j = port_list ctx ! j \<and>
            (j \<in> set (timeout_list (usb_monitor_reset_all_ports update ctx 0))) =
              (j \<in> set (timeout_list ctx))) \<and>
         (\<forall>update'.
            (\<forall>i c. status (port_list c ! i) = PORT_NO_DEV_CONNECTED \<and>
                    msg_mode (port_list c ! i) \<noteq> RESET \<longrightarrow> update' i c = update i c) \<longrightarrow>
            usb_monitor_reset_all_ports update' ctx 0 = usb_monitor_reset_all_ports update ctx 0)"
proof -
  let ?free = "\<lambda>i. status (port_list ctx ! i) = PORT_NO_DEV_CONNECTED \<and>
                    msg_mode (port_list ctx ! i) \<noteq> RESET"
  have eq: "usb_monitor_reset_all_ports update ctx 0 =
      fold update (filter ?free [0..<length (port_list ctx)]) ctx"
    using reset_ports_from_periodic [OF assms, of "[0..<length (port_list ctx)]" ctx]
    by (simp add: usb_monitor_reset_all_ports_def)
  have untouched: "port_list (usb_monitor_reset_all_ports update ctx 0) ! j = port_list ctx ! j \<and>
      (j \<in> set (timeout_list (usb_monitor_reset_all_ports update ctx 0))) =
        (j \<in> set (timeout_list ctx))"
    if "\<not> ?free j" for j
  proof -
    from that have "j \<notin> set (filter ?free [0..<length (port_list ctx)])" by simp
    from port_local_fold [OF assms this] show ?thesis
      by (simp only: eq)
  qed
  have only: "usb_monitor_reset_all_ports update' ctx 0 = usb_monitor_reset_all_ports update ctx 0"
    if "\<forall>i c. status (port_list c ! i) = PORT_NO_DEV_CONNECTED \<and>
                    msg_mode (port_list c ! i) \<noteq> RESET \<longrightarrow> update' i c = update i c"
    for update'
    using that
    by (simp add: usb_monitor_reset_all_ports_def reset_ports_from_cong [of update' update])
  from eq untouched only show ?thesis by blast
qed

theorem periodic_sweep_updates_free_ports_witness:
  "port_local (port_update 9000000) \<and>
   status (port_list ex_ctx_sweep ! 0) = PORT_NO_DEV_CONNECTED \<and>
   msg_mode (port_list ex_ctx_sweep ! 0) = IDLE \<and>
   status (port_list ex_ctx_sweep ! 1) = PORT_DEV_CONNECTED \<and>
   msg_mode (port_list ex_ctx_sweep ! 2) = RESET \<and>
   usb_monitor_reset_all_ports (port_update 9000000) ex_ctx_sweep 0 =
     port_update 9000000 0 ex_ctx_sweep \<and>
   port_list (usb_monitor_reset_all_ports (port_update 9000000) ex_ctx_sweep 0) ! 1 =
     port_list ex_ctx_sweep ! 1 \<and>
   port_list (usb_monitor_reset_all_ports (port_update 9000000) ex_ctx_sweep 0) ! 2 =
     port_list ex_ctx_sweep ! 2"
proof -
  have n: "[0..<length (port_list ex_ctx_sweep)] = [0, 1, 2]"
    by (simp add: ex_ctx_sweep_def upt_rec)
  have m: "status (port_list ex_ctx_sweep ! 0) = PORT_NO_DEV_CONNECTED \<and>
      msg_mode (port_list ex_ctx_sweep ! 0) = IDLE \<and>
      status (port_list ex_ctx_sweep ! 1) = PORT_DEV_CONNECTED \<and>
      msg_mode (port_list ex_ctx_sweep ! 2) = RESET"
    by (simp add: ex_ctx_sweep_def ex_port_def)
  note sweep = periodic_sweep_updates_free_ports [OF port_local_port_update,
      of 9000000 ex_ctx_sweep]
  from sweep have eq: "usb_monitor_reset_all_ports (port_update 9000000) ex_ctx_sweep 0 =
      port_update 9000000 0 ex_ctx_sweep"
    using m by (simp add: n)
  note untouched = sweep [THEN conjunct2, THEN conjunct1, rule_format, THEN conjunct1]
  have u1: "port_list (usb_monitor_reset_all_ports (port_update 9000000) ex_ctx_sweep 0) ! 1 =
      port_list ex_ctx_sweep ! 1"
    using m by (intro untouched) simp
  have u2: "port_list (usb_monitor_reset_all_ports (port_update 9000000) ex_ctx_sweep 0) ! 2 =
      port_list ex_ctx_sweep ! 2"
    using m by (intro untouched) simp
  from port_local_port_update [of 9000000] m eq u1 u2 show ?thesis
    by (intro conjI) (simp_all only:)
qed

text \<open>
  Claim C4. For a local timeout handler and a timeout list without repetition, the
  timeout scan is the fold, over exactly the enrolled ports whose deadline is at most
  the current time, of: detach the port from the timeout list, then run its handler
  on the resulting state. A detached port is not in the timeout list, and the scan
  consults the handler only at states in which its port is not enrolled. An enrolled
  port whose deadline has not passed stays enrolled and is left as it was.
\<close>

theorem check_timeouts_detaches_then_invokes:
  assumes "port_local handle_timeout" and "distinct (timeout_list ctx)"
  shows "usb_monitor_check_timeouts handle_timeout cur_time ctx =
           fold (\<lambda>i c. handle_timeout i (usb_monitor_lists_del_timeout i c))
             (filter (\<lambda>i. timeout_expire (port_list ctx ! i) \<le> cur_time) (timeout_list ctx))
             ctx \<and>
         (\<forall>i c. i \<notin> set (timeout_list (usb_monitor_lists_del_timeout i c))) \<and>
         (\<forall>g. (\<forall>i c. i \<notin> set (timeout_list c) \<longrightarrow> g i c = handle_timeout i c) \<longrightarrow>
            usb_monitor_check_timeouts g cur_time ctx =
              usb_monitor_check_timeouts handle_timeout cur_time ctx) \<and>
         (\<forall>j\<in>set (timeout_list ctx).
            \<not> timeout_expire (port_list ctx ! j) \<le> cur_time \<longrightarrow>
            j \<in> set (timeout_list (usb_monitor_check_timeouts handle_timeout cur_time ctx)) \<and>
            port_list (usb_monitor_check_timeouts handle_timeout cur_time ctx) ! j =
              port_list ctx ! j)"
proof -
  let ?due = "\<lambda>i. timeout_expire (port_list ctx ! i) \<le> cur_time"
  let ?step = "\<lambda>i c. handle_timeout i (usb_monitor_lists_del_timeout i c)"
  have eq: "usb_monitor_check_timeouts handle_timeout cur_time ctx =
      fold ?step (filter ?due (timeout_list ctx)) ctx"
    using check_timeouts_from_fold [OF assms, of cur_time ctx]
    by (simp add: usb_monitor_check_timeouts_def)
  have detached: "i \<notin> set (timeout_list (usb_monitor_lists_del_timeout i c))" for i c
    by (simp add: usb_monitor_lists_del_timeout_def)
  have only: "usb_monitor_check_timeouts g cur_time ctx =
      usb_monitor_check_timeouts handle_timeout cur_time ctx"
    if "\<forall>i c. i \<notin> set (timeout_list c) \<longrightarrow> g i c = handle_timeout i c" for g
    using that
    by (simp add: usb_monitor_check_timeouts_def check_timeouts_from_cong [of g handle_timeout])
  have kept: "j \<in> set (timeout_list (usb_monitor_check_timeouts handle_timeout cur_time ctx)) \<and>
      port_list (usb_monitor_check_timeouts handle_timeout cur_time ctx) ! j = port_list ctx ! j"
    if "j \<in> set (timeout_list ctx)" and "\<not> ?due j" for j
  proof -
    from that have "j \<notin> set (filter ?due (timeout_list ctx))" by simp
    from port_local_fold [OF port_local_detach [OF assms(1)] this, of ctx] that(1)
    show ?thesis
      by (simp only: eq)
  qed
  from eq detached only kept show ?thesis by blast
qed

theorem check_timeouts_detaches_then_invokes_witness:
  "port_local (port_update 10000000) \<and> distinct (timeout_list ex_ctx_sweep) \<and>
   timeout_list ex_ctx_sweep = [2, 1] \<and>
   timeout_expire (port_list ex_ctx_sweep ! 2) = 4000000 \<and>
   timeout_expire (port_list ex_ctx_sweep ! 1) = 20000000 \<and>
   usb_monitor_check_timeouts (port_update 10000000) 10000000 ex_ctx_sweep =
     port_update 10000000 2 (usb_monitor_lists_del_timeout 2 ex_ctx_sweep) \<and>
   timeout_list (usb_monitor_check_timeouts (port_update 10000000) 10000000 ex_ctx_sweep) = [1] \<and>
   port_list (usb_monitor_check_timeouts (port_update 10000000) 10000000 ex_ctx_sweep) ! 1 =
     port_list ex_ctx_sweep ! 1"
proof -
  have d: "distinct (timeout_list ex_ctx_sweep)"
    by (simp add: ex_ctx_sweep_def)
  have m: "timeout_list ex_ctx_sweep = [2, 1] \<and>
      timeout_expire (port_list ex_ctx_sweep ! 2) = 4000000 \<and>
      timeout_expire (port_list ex_ctx_sweep ! 1) = 20000000"
    by (simp add: ex_ctx_sweep_def ex_port_def)
  have t: "timeout_list (port_update 10000000 2 (usb_monitor_lists_del_timeout 2 ex_ctx_sweep)) = [1]"
    by (simp add: sweep_defs)
  note scan = check_timeouts_detaches_then_invokes [OF port_local_port_update d,
      of 10000000 10000000]
  from scan have eq: "usb_monitor_check_timeouts (port_update 10000000) 10000000 ex_ctx_sweep =
      port_update 10000000 2 (usb_monitor_lists_del_timeout 2 ex_ctx_sweep)"
    using m by simp
  note kept = scan [THEN conjunct2, THEN conjunct2, THEN conjunct2, rule_format, THEN conjunct2]
  have k1: "port_list (usb_monitor_check_timeouts (port_update 10000000) 10000000 ex_ctx_sweep) ! 1 =
      port_list ex_ctx_sweep ! 1"
    using m by (intro kept) simp_all
  have t': "timeout_list (usb_monitor_check_timeouts (port_update 10000000) 10000000 ex_ctx_sweep)
      = [1]"
    using t by (simp only: eq)
  from port_local_port_update [of 10000000] d m eq t' k1 show ?thesis
    by (intro conjI) (simp_all only:)
qed

section \<open>The event loop: proofs\<close>

text \<open>
  Claim C6. A tick of the event loop runs at most one periodic sweep. With \<open>c\<close> the
  context after the hotplug events and the timeout scan of the tick: when more than
  30 seconds have passed since the timestamp of the device sweep, the tick runs the
  device sweep on \<open>c\<close> and nothing else, and sets that timestamp to the current
  second; otherwise, when more than 60 seconds have passed since the timestamp of the
  restart sweep, it runs the restart sweep (the sweep over all ports, not forced) on
  \<open>c\<close> and nothing else, and sets that timestamp; otherwise it runs neither and
  leaves both timestamps and \<open>c\<close> as they are. Each timestamp changes only when
  its sweep runs, so each guard measures the time since the last run of its sweep.
\<close>

theorem main_loop_tick_one_sweep:
  "main_loop_tick ykush_event_cb handle_timeout update check_devices events
       scan_time cur_sec t ctx =
     (let c = usb_monitor_check_timeouts handle_timeout scan_time
                (fold (\<lambda>(now, device, event) c. usb_monitor_cb ykush_event_cb now c device event)
                   events ctx)
      in if cur_sec - last_dev_check t > 30
         then ([Device_sweep], t\<lparr>last_dev_check := cur_sec\<rparr>, check_devices c)
         else if cur_sec - last_restart t > 60
         then ([Restart_sweep], t\<lparr>last_restart := cur_sec\<rparr>,
               usb_monitor_reset_all_ports update c 0)
         else ([], t, c)) \<and>
   length (fst (main_loop_tick ykush_event_cb handle_timeout update check_devices events
             scan_time cur_sec t ctx)) \<le> 1 \<and>
   (Device_sweep \<in> set (fst (main_loop_tick ykush_event_cb handle_timeout update check_devices
             events scan_time cur_sec t ctx)) \<longrightarrow>
      cur_sec - last_dev_check t > 30) \<and>
   (Restart_sweep \<in> set (fst (main_loop_tick ykush_event_cb handle_timeout update check_devices
             events scan_time cur_sec t ctx)) \<longrightarrow>
      cur_sec - last_restart t > 60 \<and> \<not> cur_sec - last_dev_check t > 30) \<and>
   \<not> (Device_sweep \<in> set (fst (main_loop_tick ykush_event_cb handle_timeout update
             check_devices events scan_time cur_sec t ctx)) \<and>
      Restart_sweep \<in> set (fst (main_loop_tick ykush_event_cb handle_timeout update
             check_devices events scan_time cur_sec t ctx))) \<and>
   last_dev_check (fst (snd (main_loop_tick ykush_event_cb handle_timeout update check_devices
             events scan_time cur_sec t ctx))) =
     (if cur_sec - last_dev_check t > 30 then cur_sec else last_dev_check t) \<and>
   last_restart (fst (snd (main_loop_tick ykush_event_cb handle_timeout update check_devices
             events scan_time cur_sec t ctx))) =
     (if \<not> cur_sec - last_dev_check t > 30 \<and> cur_sec - last_restart t > 60 then cur_sec
      else last_restart t)"
  by (simp add: main_loop_tick_def main_loop_sweeps_def Let_def)

theorem main_loop_tick_one_sweep_witness:
  "100 - last_dev_check \<lparr>last_restart = 0, last_dev_check = 0\<rparr> > 30 \<and>
   100 - last_restart \<lparr>last_restart = 0, last_dev_check = 0\<rparr> > 60 \<and>
   main_loop_tick ex_no_ykush (port_update 100000000) (port_update 100000000)
     ex_check_devices [] 100000000 100 \<lparr>last_restart = 0, last_dev_check = 0\<rparr>
     ex_ctx_unbound =
     ([Device_sweep], \<lparr>last_restart = 0, last_dev_check = 100\<rparr>,
      ex_check_devices ex_ctx_unbound) \<and>
   msg_mode (port_list (ex_check_devices ex_ctx_unbound) ! 0) = PING \<and>
   main_loop_tick ex_no_ykush (port_update 100000000) (port_update 100000000)
     ex_check_devices [] 100000000 100 \<lparr>last_restart = 0, last_dev_check = 90\<rparr>
     ex_ctx_unbound =
     ([Restart_sweep], \<lparr>last_restart = 100, last_dev_check = 90\<rparr>,
      port_update 100000000 0 ex_ctx_unbound) \<and>
   msg_mode (port_list (port_update 100000000 0 ex_ctx_unbound) ! 0) = RESET \<and>
   main_loop_tick ex_no_ykush (port_update 100000000) (port_update 100000000)
     ex_check_devices [] 100000000 100 \<lparr>last_restart = 90, last_dev_check = 90\<rparr>
     ex_ctx_unbound =
     ([], \<lparr>last_restart = 90, last_dev_check = 90\<rparr>, ex_ctx_unbound)"
proof -
  have scan: "usb_monitor_check_timeouts (port_update 100000000) 100000000 ex_ctx_unbound =
      ex_ctx_unbound"
    by (simp add: usb_monitor_check_timeouts_def ex_ctx_unbound_def)
  have sweep: "usb_monitor_reset_all_ports (port_update 100000000) ex_ctx_unbound 0 =
      port_update 100000000 0 ex_ctx_unbound"
    by (simp add: usb_monitor_reset_all_ports_def ex_ctx_unbound_def ex_port_def)
  have modes: "msg_mode (port_list (ex_check_devices ex_ctx_unbound) ! 0) = PING \<and>
      msg_mode (port_list (port_update 100000000 0 ex_ctx_unbound) ! 0) = RESET"
    by (simp add: ex_check_devices_def ex_defs hotplug_defs port_update_def)
  note tick = main_loop_tick_one_sweep [THEN conjunct1, of ex_no_ykush "port_update 100000000"
      "port_update 100000000" ex_check_devices "[]" 100000000 100 _ ex_ctx_unbound]
  have a: "main_loop_tick ex_no_ykush (port_update 100000000) (port_update 100000000)
     ex_check_devices [] 100000000 100 \<lparr>last_restart = 0, last_dev_check = 0\<rparr>
     ex_ctx_unbound =
     ([Device_sweep], \<lparr>last_restart = 0, last_dev_check = 100\<rparr>,
      ex_check_devices ex_ctx_unbound)"
    by (simp add: tick scan)
  have b: "main_loop_tick ex_no_ykush (port_update 100000000) (port_update 100000000)
     ex_check_devices [] 100000000 100 \<lparr>last_restart = 0, last_dev_check = 90\<rparr>
     ex_ctx_unbound =
     ([Restart_sweep], \<lparr>last_restart = 100, last_dev_check = 90\<rparr>,
      port_update 100000000 0 ex_ctx_unbound)"
    by (simp add: tick scan sweep)
  have c: "main_loop_tick ex_no_ykush (port_update 100000000) (port_update 100000000)
     ex_check_devices [] 100000000 100 \<lparr>last_restart = 90, last_dev_check = 90\<rparr>
     ex_ctx_unbound =
     ([], \<lparr>last_restart = 90, last_dev_check = 90\<rparr>, ex_ctx_unbound)"
    by (simp add: tick scan)
  from a b c modes show ?thesis
    by simp
qed

section \<open>Configuration: proofs\<close>

lemma c_str_literals:
  "c_str ''name'' = ''name''" "c_str ''ports'' = ''ports''"
  "c_str ''GPIO'' = ''GPIO''" "c_str ''handlers'' = ''handlers''"
  by (simp_all add: c_str_def)

lemma strcmp_eq_stops_at_zero:
  "strcmp_eq ''GPIO'' (''GPIO'' @ CHR 0x00 # ''x'') \<and> \<not> strcmp_eq ''GPIO'' ''GPIOx''"
  by (simp add: strcmp_eq_def c_str_def)

lemma handler_keys_unknown:
  "unknown_key kvs \<Longrightarrow> snd (snd (handler_keys ser kvs st))"
  by (induction ser kvs st rule: handler_keys.induct) (auto simp add: unknown_key_def)

lemma handler_keys_keeps_name:
  "\<forall>(key, val)\<in>set kvs. \<not> strcmp_eq key ''name'' \<Longrightarrow>
   fst (handler_keys ser kvs st) = fst st"
  by (induction ser kvs st rule: handler_keys.induct) auto

lemma handler_keys_name:
  "(k, v) \<in> set kvs \<Longrightarrow> strcmp_eq k ''name'' \<Longrightarrow>
   distinct (map (\<lambda>(key, val). c_str key) kvs) \<Longrightarrow> \<not> unknown_key kvs \<Longrightarrow>
   fst (handler_keys ser kvs st) = json_object_get_string ser v"
proof (induction ser kvs st rule: handler_keys.induct)
  case (1 ser st)
  then show ?case by simp
next
  case (2 ser key val rest handler_name handler_obj unknown_elem)
  show ?case
  proof (cases "strcmp_eq key ''name''")
    case True
    have fresh: "\<forall>(key', val')\<in>set rest. c_str key' \<noteq> c_str key"
      using "2.prems"(3) by (auto simp add: rev_image_eqI)
    then have "(k, v) \<notin> set rest"
      using True "2.prems"(2) by (auto simp add: strcmp_eq_def)
    with "2.prems"(1) have "val = v" by simp
    moreover have "\<forall>(key', val')\<in>set rest. \<not> strcmp_eq key' ''name''"
      using fresh True by (auto simp add: strcmp_eq_def)
    ultimately show ?thesis
      using True by (simp add: handler_keys_keeps_name)
  next
    case False
    with "2.prems" have "strcmp_eq key ''ports''" and "(k, v) \<in> set rest"
      and "distinct (map (\<lambda>(key, val). c_str key) rest)" and "\<not> unknown_key rest"
      by (auto simp add: unknown_key_def)
    then show ?thesis
      using "2.IH"(2) "2.prems"(2) False by simp
  qed
qed

lemma handler_keys_refused:
  assumes "distinct (map (\<lambda>(key, val). c_str key) kvs)"
    and "unknown_key kvs \<or> unknown_name ser kvs"
  shows "snd (snd (handler_keys ser kvs st)) \<or> \<not> name_is_gpio (fst (handler_keys ser kvs st))"
proof (cases "unknown_key kvs")
  case True
  then show ?thesis by (simp add: handler_keys_unknown)
next
  case False
  with assms(2) obtain k v where "(k, v) \<in> set kvs" and "strcmp_eq k ''name''"
    and "\<not> name_is_gpio (json_object_get_string ser v)"
    by (auto simp add: unknown_name_def list_ex_iff)
  then show ?thesis
    using handler_keys_name [OF _ _ assms(1) False, of k v ser st] by simp
qed

lemma parse_handlers_from_refuses:
  "\<forall>h\<in>set hs. handler_element h \<Longrightarrow> \<exists>h\<in>set hs. refused_handler ser h \<Longrightarrow>
   \<exists>ctx'. parse_handlers_from gpio ser hs False ctx = Some (1, ctx')"
proof (induction hs arbitrary: ctx)
  case Nil
  then show ?case by simp
next
  case (Cons a hs)
  from Cons.prems(1) obtain kvs where a: "a = Jobject kvs"
    and d: "distinct (map (\<lambda>(key, val). c_str key) kvs)"
    by (cases a) auto
  show ?case
  proof (cases "refused_handler ser a")
    case True
    then have "snd (snd (handler_keys ser kvs (None, None, False))) \<or>
        \<not> name_is_gpio (fst (handler_keys ser kvs (None, None, False)))"
      using handler_keys_refused [OF d] a by simp
    then show ?thesis
      by (auto simp add: a name_is_gpio_def split: prod.splits option.splits bool.splits)
  next
    case False
    with Cons.prems have "\<forall>h\<in>set hs. handler_element h" and "\<exists>h\<in>set hs. refused_handler ser h"
      by auto
    then have "\<exists>ctx'. parse_handlers_from gpio ser hs False c = Some (1, ctx')" for c
      by (rule Cons.IH)
    then show ?thesis
      by (auto simp add: a split: prod.splits option.splits bool.splits)
  qed
qed

text \<open>
  The tests the parser does make refuse what they should: parsing returns 1 when the
  first top-level key is not \<open>handlers\<close>, and when the first top-level key is
  \<open>handlers\<close>, bound to a sequence of mappings of which one has a key other than
  \<open>name\<close> and \<open>ports\<close> or a \<open>name\<close> that is not \<open>GPIO\<close>.
\<close>

lemma parse_config_refuses:
  "(\<not> strcmp_eq ''handlers'' obj_name \<longrightarrow>
      usb_monitor_parse_config gpio_handler_parse_json to_json_string ctx
        (Contents (Jobject ((obj_name, top_value) # others))) = Some (1, ctx)) \<and>
   (strcmp_eq ''handlers'' obj_name \<and> (\<forall>h\<in>set handlers. handler_element h) \<and>
    (\<exists>h\<in>set handlers. refused_handler to_json_string h) \<longrightarrow>
      (\<exists>ctx'. usb_monitor_parse_config gpio_handler_parse_json to_json_string ctx
         (Contents (Jobject ((obj_name, Jarray handlers) # others))) = Some (1, ctx')))"
  using parse_handlers_from_refuses [of handlers to_json_string gpio_handler_parse_json ctx]
  by (simp add: usb_monitor_parse_config_def usb_monitor_parse_handlers_def)

text \<open>
  Claim C7, evaluated. Only the first top-level key is compared with \<open>handlers\<close>:
  a configuration whose first key is \<open>handlers\<close> and that has the further, unknown
  top-level key \<open>bogus\<close> is accepted, with an empty sequence of handlers and with
  a GPIO handler: parsing returns 0. With the unknown key first, parsing returns 1.
\<close>

theorem parse_config_accepts_unknown_later_key:
  "usb_monitor_parse_config ex_gpio_accepts ex_to_json_string ex_ctx_unbound
     (Contents (Jobject [(''handlers'', Jarray []), (''bogus'', Jint 1)])) =
   Some (0, ex_ctx_unbound) \<and>
   usb_monitor_parse_config ex_gpio_accepts ex_to_json_string ex_ctx_unbound
     (Contents (Jobject [(''handlers'', Jarray [ex_gpio_handler]), (''bogus'', Jint 1)])) =
   Some (0, ex_ctx_unbound) \<and>
   usb_monitor_parse_config ex_gpio_accepts ex_to_json_string ex_ctx_unbound
     (Contents (Jobject [(''bogus'', Jint 1), (''handlers'', Jarray [])])) =
   Some (1, ex_ctx_unbound)"
  by (simp add: usb_monitor_parse_config_def usb_monitor_parse_handlers_def ex_gpio_handler_def
      ex_gpio_accepts_def json_object_get_string_def strcmp_eq_def c_str_def)

end
